theory Spec2Isabelle
  imports Complex_Main
begin

section \<open>Crossing detection for projected space curves\<close>

text \<open>
  A shallow embedding of \<^verbatim>\<open>pyknotid/spacecurves/helpers.py\<close> and
  \<^verbatim>\<open>pyknot2/spacecurves/rotation.py\<close>.

  Numbers: every \<^verbatim>\<open>float64\<close> of the source is a \<^typ>\<open>real\<close> here, so the
  arithmetic is exact and the literal \<^verbatim>\<open>0.00001\<close> is the rational \<open>1 / 100000\<close>.
  Rounding is not modelled. Where the source produces a non-finite float (a division
  by a zero float in numpy), the model says so explicitly with \<open>None\<close>.
  The \<^verbatim>\<open>int64\<close> parameters are \<^typ>\<open>int\<close>.

  Failures: an exception of the interpreter is a value \<open>Inl e\<close> of a sum type. An
  index past the end of an array is \<open>IndexError\<close>; under numba's \<^verbatim>\<open>nopython\<close> mode
  the same read is an unchecked access to memory outside the array.

  The functions are read as the Python they are written in; the numba decorators
  contribute the types of the scalar parameters only.
\<close>

subsection \<open>Data\<close>

datatype py_error = IndexError | ValueError | ZeroDivisionError | UnboundLocalError

text \<open>A point of a polyline, \<^verbatim>\<open>(x, y, z)\<close>; the code reads the components 0, 1, 2.\<close>

type_synonym point = "real \<times> real \<times> real"

text \<open>
  A row of the crossings buffer: \<^verbatim>\<open>[position, other position, sign, sign * direction]\<close>.
\<close>

type_synonym crossing = "real \<times> real \<times> real \<times> real"

subsection \<open>Scalar helpers\<close>

definition cross_product :: "real \<Rightarrow> real \<Rightarrow> real \<Rightarrow> real \<Rightarrow> real" where
  "cross_product px py qx qy = px * qy - py * qx"

definition mag_difference :: "real \<times> real \<Rightarrow> real \<times> real \<Rightarrow> real" where
  "mag_difference a b = sqrt ((fst b - fst a)\<^sup>2 + (snd b - snd a)\<^sup>2)"

definition sign :: "real \<Rightarrow> real" where
  "sign a = (if a > 0 then 1 else (if a < 0 then - 1 else 0))"

subsection \<open>\<^verbatim>\<open>do_vectors_intersect\<close>\<close>

text \<open>
  The returned flag \<^verbatim>\<open>1\<close>/\<^verbatim>\<open>0\<close> is only ever tested for truth, so it is a
  \<^typ>\<open>bool\<close>. The branches and their order are the source's: the near-parallel
  test first (returning \<^verbatim>\<open>(0, 0., 0.)\<close>), then \<open>t\<close>, then \<open>u\<close>, and
  \<^verbatim>\<open>(0, -1., -1.)\<close> when either parameter is outside the open unit interval.
\<close>

definition do_vectors_intersect ::
  "real \<Rightarrow> real \<Rightarrow> real \<Rightarrow> real \<Rightarrow> real \<Rightarrow> real \<Rightarrow> real \<Rightarrow> real \<Rightarrow> bool \<times> real \<times> real" where
  "do_vectors_intersect px py dpx dpy qx qy dqx dqy =
     (if \<bar>cross_product dpx dpy dqx dqy\<bar> < 1 / 100000 then (False, 0, 0)
      else
        let t = cross_product (qx - px) (qy - py) dqx dqy / cross_product dpx dpy dqx dqy
        in if t < 1 \<and> t > 0 then
             let u = cross_product (qx - px) (qy - py) dpx dpy / cross_product dpx dpy dqx dqy
             in if u < 1 \<and> u > 0 then (True, t, u) else (False, - 1, - 1)
           else (False, - 1, - 1))"

subsection \<open>\<^verbatim>\<open>find_crossings\<close>\<close>

text \<open>
  The state of the \<^verbatim>\<open>while\<close> loop: the comparison index \<^verbatim>\<open>i\<close>, the flag
  \<^verbatim>\<open>already_jumped\<close> and the buffer \<^verbatim>\<open>crossings\<close> (an array of \<^verbatim>\<open>len(points)\<close>
  rows of four floats, zero at the start). The index never goes below zero (it is
  decreased by 2 only after it was increased at least twice), so it is a \<^typ>\<open>nat\<close>.
\<close>

record loop_state =
  idx :: nat
  already_jumped :: bool
  crossings :: "crossing list"

text \<open>\<^verbatim>\<open>crossings[i] += n.array([...])\<close>: the elementwise sum of two rows.\<close>

definition row_add :: "crossing \<Rightarrow> crossing \<Rightarrow> crossing" where
  "row_add a b =
     (case a of (a0, a1, a2, a3) \<Rightarrow> case b of (b0, b1, b2, b3) \<Rightarrow>
        (a0 + b0, a1 + b1, a2 + b2, a3 + b3))"

text \<open>
  The inner loop of the default jump mode (lines 144 to 148), with
  \<open>bound = distance - max_segment_length\<close> and \<open>npoints = len(points)\<close>:
  \<^verbatim>\<open>
  while (distance_travelled < (distance - max_segment_length) and i < len(points)):
      jumps += 1
      distance_travelled += segment_lengths[i]
      i += 1
  \<close>
  It returns the final \<open>(i, jumps)\<close>, or \<open>IndexError\<close> as soon as \<^verbatim>\<open>segment_lengths[i]\<close>
  is read at an index that the array does not have.
\<close>

function accumulate_jumps ::
  "real \<Rightarrow> nat \<Rightarrow> real list \<Rightarrow> real \<Rightarrow> nat \<Rightarrow> nat \<Rightarrow> py_error + (nat \<times> nat)" where
  "accumulate_jumps bound npoints segment_lengths distance_travelled jumps i =
     (if distance_travelled < bound \<and> i < npoints then
        (if i < length segment_lengths then
           accumulate_jumps bound npoints segment_lengths
             (distance_travelled + segment_lengths ! i) (jumps + 1) (i + 1)
         else Inl IndexError)
      else Inr (i, jumps))"
  by pat_completeness auto
termination
  by (relation "measure (\<lambda>(bound, npoints, segment_lengths, distance_travelled, jumps, i).
        npoints - i)") auto

declare accumulate_jumps.simps [simp del]

text \<open>
  One pass through the body of the outer \<^verbatim>\<open>while\<close> loop (lines 96 to 151). The
  loop's test guarantees \<open>i + 1 < len(points)\<close>, so the two reads of \<^verbatim>\<open>points\<close> are in
  range whenever the loop runs the body; outside the loop the step answers as the
  interpreter would. In jump mode 2 a zero \<^verbatim>\<open>max_segment_length\<close> is a division by
  zero.
\<close>

definition find_crossings_step ::
  "point \<Rightarrow> point \<Rightarrow> point list \<Rightarrow> real list \<Rightarrow> int \<Rightarrow> int \<Rightarrow> int \<Rightarrow> int \<Rightarrow>
   loop_state \<Rightarrow> py_error + loop_state" where
  "find_crossings_step v dv points segment_lengths current_index comparison_index
       max_segment_length jump_mode s =
     (case v of (vx, vy, vz) \<Rightarrow> case dv of (dvx, dvy, dvz) \<Rightarrow>
      let twice_max_segment_length = 2 * real_of_int max_segment_length;
          i = idx s
      in if \<not> i < length points then Inl IndexError
      else case points ! i of (point0, point1, point2) \<Rightarrow>
      let distance = sqrt ((vx - point0)\<^sup>2 + (vy - point1)\<^sup>2)
      in if distance < twice_max_segment_length \<or> already_jumped s then
        (if \<not> i + 1 < length points then Inl IndexError
         else case points ! (i + 1) of (next_point0, next_point1, next_point2) \<Rightarrow>
         let jump_x = next_point0 - point0;
             jump_y = next_point1 - point1;
             jump_z = next_point2 - point2
         in case do_vectors_intersect vx vy dvx dvy point0 point1 jump_x jump_y of
           (intersect, intersect_i, intersect_j) \<Rightarrow>
           if intersect then
             let pz = point2;
                 dpz = jump_z;
                 crossing_sign = sign ((vz + intersect_i * dvz) - (pz + intersect_j * dpz));
                 crossing_direction = sign (cross_product dvx dvy jump_x jump_y);
                 first_record =
                   (real_of_int current_index + intersect_i,
                    real_of_int comparison_index + intersect_j + real i,
                    crossing_sign,
                    crossing_sign * crossing_direction);
                 second_record =
                   (real_of_int comparison_index + intersect_j + real i,
                    real_of_int current_index + intersect_i,
                    - 1 * crossing_sign,
                    crossing_sign * crossing_direction)
             in Inr \<lparr>idx = i + 1, already_jumped = False,
                     crossings = (crossings s)
                       [i := row_add (row_add (crossings s ! i) first_record) second_record]\<rparr>
           else Inr \<lparr>idx = i + 1, already_jumped = False, crossings = crossings s\<rparr>)
      else if jump_mode = 3 then
        Inr \<lparr>idx = i + 1, already_jumped = True, crossings = crossings s\<rparr>
      else if jump_mode = 2 then
        (if max_segment_length = 0 then Inl ZeroDivisionError
         else
           let num_jumps = \<lfloor>distance / real_of_int max_segment_length\<rfloor> - 1;
               num_jumps = (if num_jumps < 1 then 1 else num_jumps)
           in Inr \<lparr>idx = i + nat num_jumps, already_jumped = True, crossings = crossings s\<rparr>)
      else
        (case accumulate_jumps (distance - real_of_int max_segment_length) (length points)
                segment_lengths 0 0 i of
           Inl e \<Rightarrow> Inl e
         | Inr (i', jumps) \<Rightarrow>
             Inr \<lparr>idx = (if jumps > 1 then i' - 2 else i'), already_jumped = True,
                   crossings = crossings s\<rparr>))"

text \<open>
  The outer loop, \<^verbatim>\<open>while i < len(points) - 1\<close>, and the value returned after it.
  Each pass either moves the index forward or sets \<^verbatim>\<open>already_jumped\<close> from false to
  true without moving the index back, which is why the loop ends.
\<close>

function find_crossings_loop ::
  "point \<Rightarrow> point \<Rightarrow> point list \<Rightarrow> real list \<Rightarrow> int \<Rightarrow> int \<Rightarrow> int \<Rightarrow> int \<Rightarrow>
   loop_state \<Rightarrow> py_error + crossing list" where
  "find_crossings_loop v dv points segment_lengths current_index comparison_index
       max_segment_length jump_mode s =
     (if idx s + 1 < length points then
        (case find_crossings_step v dv points segment_lengths current_index comparison_index
                max_segment_length jump_mode s of
           Inl e \<Rightarrow> Inl e
         | Inr s' \<Rightarrow>
             find_crossings_loop v dv points segment_lengths current_index comparison_index
               max_segment_length jump_mode s')
      else Inr (crossings s))"
  by pat_completeness auto
termination
proof (relation "measure (\<lambda>(v, dv, points, segment_lengths, current_index, comparison_index,
          max_segment_length, jump_mode, s).
        2 * (length points - idx s) + (if already_jumped s then 0 else 1))", goal_cases)
  case 1
  show ?case by simp
next
  case (2 v dv points segment_lengths current_index comparison_index max_segment_length
          jump_mode s s')
  have acc: "i' + j = i + j' \<and> j \<le> j'"
    if "accumulate_jumps b n sl d j i = Inr (i', j')" for b n sl d j i i' j'
    using that
  proof (induction b n sl d j i rule: accumulate_jumps.induct)
    case (1 bound npoints segment_lengths distance_travelled jumps i)
    from "1.prems" "1.IH" show ?case
      by (subst (asm) accumulate_jumps.simps) (auto split: if_splits)
  qed
  obtain vx vy vz dvx dvy dvz where v: "v = (vx, vy, vz)" and dv: "dv = (dvx, dvy, dvz)"
    by (metis prod_cases3)
  obtain p0 p1 p2 where p: "points ! idx s = (p0, p1, p2)"
    by (metis prod_cases3)
  obtain n0 n1 n2 where n: "points ! (idx s + 1) = (n0, n1, n2)"
    by (metis prod_cases3)
  from 2 have lt: "idx s + 1 < length points" by simp
  have acc0: "i' = idx s + j'" if "accumulate_jumps b n sl 0 0 (idx s) = Inr (i', j')"
    for b n sl i' j'
    using acc [OF that] by simp
  have "idx s < idx s' \<or> (idx s \<le> idx s' \<and> \<not> already_jumped s \<and> already_jumped s')"
    using "2"(2) lt
    unfolding find_crossings_step_def v dv Let_def
    by (auto simp: p n split: if_splits prod.splits sum.splits dest: acc0)
  with lt show ?case by auto
qed

declare find_crossings_loop.simps [simp del]

definition find_crossings ::
  "point \<Rightarrow> point \<Rightarrow> point list \<Rightarrow> real list \<Rightarrow> int \<Rightarrow> int \<Rightarrow> int \<Rightarrow> int \<Rightarrow>
   py_error + crossing list" where
  "find_crossings v dv points segment_lengths current_index comparison_index
       max_segment_length jump_mode =
     find_crossings_loop v dv points segment_lengths current_index comparison_index
       max_segment_length jump_mode
       \<lparr>idx = 0, already_jumped = False, crossings = replicate (length points) (0, 0, 0, 0)\<rparr>"

text \<open>
  The straight-line planar distance of claim C9, from the query point to a comparison
  point (line 97).
\<close>

definition planar_distance :: "point \<Rightarrow> point \<Rightarrow> real" where
  "planar_distance v point =
     (case v of (vx, vy, vz) \<Rightarrow> case point of (point0, point1, point2) \<Rightarrow>
        sqrt ((vx - point0)\<^sup>2 + (vy - point1)\<^sup>2))"

text \<open>
  What claim C5 asks of a crossing record: the sign and the signed direction are among
  \<open>- 1\<close>, \<open>0\<close> and \<open>1\<close>.
\<close>

definition crossing_fields_in_range :: "crossing \<Rightarrow> bool" where
  "crossing_fields_in_range row =
     (case row of (position, other_position, crossing_sign, signed_direction) \<Rightarrow>
        crossing_sign \<in> {- 1, 0, 1} \<and> signed_direction \<in> {- 1, 0, 1})"

subsection \<open>\<^verbatim>\<open>raw_cross_loop\<close>\<close>

text \<open>
  The model follows the body of the function: \<^verbatim>\<open>lines\<close> is a sequence of polylines and
  \<^verbatim>\<open>segment_lengths[other_index]\<close> is the array of segment lengths of one polyline.
  (The array ranks in the declared numba signature are one lower than the body needs:
  the body passes \<^verbatim>\<open>points[i]\<close> and \<^verbatim>\<open>segment_lengths[other_index]\<close> to
  \<^verbatim>\<open>find_crossings\<close> as arrays.) The truth value of \<^verbatim>\<open>include_closures\<close> is
  \<open>include_closures \<noteq> 0\<close>.
\<close>

definition list_get :: "'a list \<Rightarrow> nat \<Rightarrow> py_error + 'a" where
  "list_get xs i = (if i < length xs then Inr (xs ! i) else Inl IndexError)"

fun fold_err :: "('a \<Rightarrow> 's \<Rightarrow> py_error + 's) \<Rightarrow> 'a list \<Rightarrow> 's \<Rightarrow> py_error + 's" where
  "fold_err f [] s = Inr s"
| "fold_err f (x # xs) s = (case f x s of Inl e \<Rightarrow> Inl e | Inr s' \<Rightarrow> fold_err f xs s')"

text \<open>The slice \<^verbatim>\<open>a[::2]\<close>; the slice \<^verbatim>\<open>a[1::2]\<close> is \<open>every_other (drop 1 a)\<close>.\<close>

fun every_other :: "'a list \<Rightarrow> 'a list" where
  "every_other [] = []"
| "every_other [x] = [x]"
| "every_other (x # y # xs) = x # every_other xs"

text \<open>\<^verbatim>\<open>a[:, 0] += x; a[:, 1] += y\<close> on an array of rows.\<close>

definition offset_positions :: "real \<Rightarrow> real \<Rightarrow> crossing list \<Rightarrow> crossing list" where
  "offset_positions x y rows = map (\<lambda>(c0, c1, c2, c3). (c0 + x, c1 + y, c2, c3)) rows"

text \<open>
  Lines 177 to 196 for one query segment \<open>i\<close> of the line \<open>points\<close>: the call of
  \<^verbatim>\<open>find_crossings\<close> and the two arrays built from its result. \<open>None\<close> is the
  \<^verbatim>\<open>continue\<close> on an empty result.
\<close>

definition segment_crossings ::
  "point list \<Rightarrow> point list \<Rightarrow> real list \<Rightarrow> int \<Rightarrow> int \<Rightarrow> real list \<Rightarrow> nat \<Rightarrow> nat \<Rightarrow> nat \<Rightarrow>
   py_error + (crossing list \<times> crossing list) option" where
  "segment_crossings points comparison_points other_seg_lengths max_segment_length jump_mode
       cumulative_lengths line_index other_index i =
     (case points ! i of (x0, y0, z0) \<Rightarrow>
      case points ! ((i + 1) mod length points) of (x1, y1, z1) \<Rightarrow>
      let v0 = (x0, y0, z0);
          dv = (x1 - x0, y1 - y0, z1 - z0);
          vnum = int i;
          compnum = 0
      in case find_crossings v0 dv comparison_points other_seg_lengths vnum compnum
                max_segment_length jump_mode of
           Inl e \<Rightarrow> Inl e
         | Inr new_crossings \<Rightarrow>
             if length new_crossings = 0 then Inr None
             else
               (case list_get cumulative_lengths line_index of
                  Inl e \<Rightarrow> Inl e
                | Inr offset_line \<Rightarrow>
                    (case list_get cumulative_lengths other_index of
                       Inl e \<Rightarrow> Inl e
                     | Inr offset_other \<Rightarrow>
                         Inr (Some
                           (offset_positions offset_line offset_other
                              (every_other new_crossings),
                            offset_positions offset_other offset_line
                              (every_other (drop 1 new_crossings)))))))"

text \<open>
  The pairs \<open>(line_index, other_index)\<close> of the two outer loops, in the order in which
  the loops visit them, and the query segments of a line (\<^verbatim>\<open>first_line_range\<close>).
\<close>

definition line_pairs :: "nat \<Rightarrow> (nat \<times> nat) list" where
  "line_pairs n =
     concat (map (\<lambda>line_index. map (\<lambda>other_index. (line_index, other_index))
       [line_index + 1 ..< n]) [0 ..< n])"

definition first_line_range :: "point list \<Rightarrow> int \<Rightarrow> nat list" where
  "first_line_range points include_closures =
     (if include_closures = 0 then butlast [0 ..< length points] else [0 ..< length points])"

text \<open>
  The body of the two outer loops for one pair. The variables \<^verbatim>\<open>first_crossings\<close> and
  \<^verbatim>\<open>sec_crossings\<close> are the accumulator: \<open>None\<close> while they are unbound, and each query
  segment with a non-empty result assigns them anew (lines 191 and 194).
\<close>

definition raw_cross_pair ::
  "point list list \<Rightarrow> real list list \<Rightarrow> int \<Rightarrow> int \<Rightarrow> real list \<Rightarrow> int \<Rightarrow> nat \<times> nat \<Rightarrow>
   (crossing list \<times> crossing list) option \<Rightarrow>
   py_error + (crossing list \<times> crossing list) option" where
  "raw_cross_pair lines segment_lengths max_segment_length jump_mode cumulative_lengths
       include_closures pair bound_vars =
     (case pair of (line_index, other_index) \<Rightarrow>
      let points = lines ! line_index;
          other_line = lines ! other_index;
          comparison_points =
            (if include_closures \<noteq> 0 then other_line @ take 1 other_line else other_line)
      in case list_get segment_lengths other_index of
           Inl e \<Rightarrow> Inl e
         | Inr other_seg_lengths \<Rightarrow>
             fold_err
               (\<lambda>i vars.
                  case segment_crossings points comparison_points other_seg_lengths
                         max_segment_length jump_mode cumulative_lengths line_index
                         other_index i of
                    Inl e \<Rightarrow> Inl e
                  | Inr None \<Rightarrow> Inr vars
                  | Inr (Some assigned) \<Rightarrow> Inr (Some assigned))
               (first_line_range points include_closures) bound_vars)"

text \<open>
  The whole function: the final \<^verbatim>\<open>return first_crossings, sec_crossings\<close> reads the two
  variables, which are unbound if no assignment was reached.
\<close>

definition raw_cross_loop ::
  "point list list \<Rightarrow> real list list \<Rightarrow> int \<Rightarrow> int \<Rightarrow> real list \<Rightarrow> int \<Rightarrow>
   py_error + (crossing list \<times> crossing list)" where
  "raw_cross_loop lines segment_lengths max_segment_length jump_mode cumulative_lengths
       include_closures =
     (case fold_err
             (raw_cross_pair lines segment_lengths max_segment_length jump_mode
                cumulative_lengths include_closures)
             (line_pairs (length lines)) None of
        Inl e \<Rightarrow> Inl e
      | Inr None \<Rightarrow> Inl UnboundLocalError
      | Inr (Some result) \<Rightarrow> Inr result)"

text \<open>
  The result that claim C2 describes, for comparison with \<open>raw_cross_loop\<close>: the same
  pairs and query segments, with the two arrays of every call appended to the two output
  sequences instead of replacing them.
\<close>

definition concatenated_crossings ::
  "point list list \<Rightarrow> real list list \<Rightarrow> int \<Rightarrow> int \<Rightarrow> real list \<Rightarrow> int \<Rightarrow>
   py_error + (crossing list \<times> crossing list)" where
  "concatenated_crossings lines segment_lengths max_segment_length jump_mode
       cumulative_lengths include_closures =
     fold_err
       (\<lambda>(line_index, other_index) collected.
          let points = lines ! line_index;
              other_line = lines ! other_index;
              comparison_points =
                (if include_closures \<noteq> 0 then other_line @ take 1 other_line else other_line)
          in case list_get segment_lengths other_index of
               Inl e \<Rightarrow> Inl e
             | Inr other_seg_lengths \<Rightarrow>
                 fold_err
                   (\<lambda>i (firsts, secs).
                      case segment_crossings points comparison_points other_seg_lengths
                             max_segment_length jump_mode cumulative_lengths line_index
                             other_index i of
                        Inl e \<Rightarrow> Inl e
                      | Inr None \<Rightarrow> Inr (firsts, secs)
                      | Inr (Some (first_crossings, sec_crossings)) \<Rightarrow>
                          Inr (firsts @ first_crossings, secs @ sec_crossings))
                   (first_line_range points include_closures) collected)
       (line_pairs (length lines)) ([], [])"

subsection \<open>\<^verbatim>\<open>get_rotation_angles\<close>\<close>

text \<open>
  The remainder \<^verbatim>\<open>x % m\<close> of two floats, for a positive \<open>m\<close>: the result has the sign
  of \<open>m\<close>.
\<close>

definition float_mod :: "real \<Rightarrow> real \<Rightarrow> real" where
  "float_mod x m = x - m * real_of_int \<lfloor>x / m\<rfloor>"

text \<open>
  A row of \<^verbatim>\<open>angles\<close> is \<open>(theta, phi)\<close>. The second component is \<open>None\<close> when the
  source computes a non-finite float for it: at \<open>k = number\<close> the divisor
  \<^verbatim>\<open>n.sqrt(1 - h_k**2)\<close> is a zero float, numpy's division answers \<^verbatim>\<open>inf\<close> (with a
  warning, not an exception) and the remainder of \<^verbatim>\<open>inf\<close> is \<^verbatim>\<open>nan\<close>. The first
  component is always finite: the loop runs only for \<open>number \<ge> 2\<close>, so \<open>number - 1\<close> is
  not zero.

  One pass through the body of the \<^verbatim>\<open>for\<close> loop (lines 19 to 24):
\<close>

definition spiral_step :: "int \<Rightarrow> int \<Rightarrow> (real \<times> real option) list \<Rightarrow> (real \<times> real option) list" where
  "spiral_step number k angles =
     (let h_k = - 1 + (2 * real_of_int (k - 1)) / real_of_int (number - 1);
          theta = arccos h_k;
          phi =
            (case snd (angles ! nat (k - 2)) of
               None \<Rightarrow> None
             | Some previous \<Rightarrow>
                 if sqrt (1 - h_k\<^sup>2) = 0 then None
                 else Some (float_mod
                   (previous + 36 / 10 / sqrt (real_of_int number) * 1 / sqrt (1 - h_k\<^sup>2))
                   (2 * pi)))
      in angles[nat (k - 1) := (theta, phi)])"

text \<open>
  The function: \<^verbatim>\<open>n.zeros((number, 2))\<close> raises \<open>ValueError\<close> for a negative
  \<open>number\<close>, the write to \<^verbatim>\<open>angles[0]\<close> raises \<open>IndexError\<close> on an array without rows,
  the loop is \<^verbatim>\<open>for k in range(2, number+1)\<close>, and \<^verbatim>\<open>angles[-1, 1] = 0.\<close> overwrites the
  second component of the last row.
\<close>

definition get_rotation_angles :: "int \<Rightarrow> py_error + (real \<times> real option) list" where
  "get_rotation_angles number =
     (if number < 0 then Inl ValueError
      else
        let angles = replicate (nat number) (0, Some 0)
        in if length angles = 0 then Inl IndexError
           else
             let angles = angles[0 := (arccos (- 1), Some 0)];
                 angles = fold (spiral_step number) [2 .. number] angles;
                 final = length angles - 1
             in Inr (angles[final := (fst (angles ! final), Some 0)]))"

text \<open>
  What claim C6 asks of one returned pair: a latitude in \<open>[0, \<pi>]\<close> and a (finite)
  longitude in \<open>[0, 2\<pi>)\<close>.
\<close>

definition valid_direction :: "real \<times> real option \<Rightarrow> bool" where
  "valid_direction row =
     (case row of
        (latitude, Some longitude) \<Rightarrow>
          0 \<le> latitude \<and> latitude \<le> pi \<and> 0 \<le> longitude \<and> longitude < 2 * pi
      | (latitude, None) \<Rightarrow> False)"

subsection \<open>\<^verbatim>\<open>rotate_to_top\<close>\<close>

text \<open>
  A matrix is the list of its rows. \<open>dot\<close> is the matrix product \<^verbatim>\<open>A.dot(B)\<close>: the
  entry in row \<open>r\<close> and column \<open>c\<close> is the sum of the products of row \<open>r\<close> of \<open>A\<close> with
  column \<open>c\<close> of \<open>B\<close>.
\<close>

definition dot :: "real list list \<Rightarrow> real list list \<Rightarrow> real list list" where
  "dot A B = map (\<lambda>row. map (\<lambda>col. sum_list (map2 (*) row col)) (transpose B)) A"

definition rotate_to_top :: "real \<Rightarrow> real \<Rightarrow> real list list" where
  "rotate_to_top theta phi =
     (let chi = - 1 * phi;
          alpha = theta;
          cc = cos chi;
          sc = sin chi;
          ca = cos alpha;
          sa = sin alpha;
          first_rotation = [[cc, - sc, 0], [sc, cc, 0], [0, 0, 1]];
          second_rotation = [[ca, 0, - sa], [0, 1, 0], [sa, 0, ca]]
      in dot second_rotation first_rotation)"

text \<open>
  The notions of claim C7: the azimuthal rotation by an angle about the polar (third)
  axis, the polar rotation by an angle about the second axis, the unit direction with
  polar angle \<open>\<theta>\<close> and azimuth \<open>\<phi>\<close>, the pole axis, the product of a matrix with a
  vector, and the determinant of a matrix of three rows and three columns.
\<close>

definition azimuthal_rotation :: "real \<Rightarrow> real list list" where
  "azimuthal_rotation a = [[cos a, - sin a, 0], [sin a, cos a, 0], [0, 0, 1]]"

definition polar_rotation :: "real \<Rightarrow> real list list" where
  "polar_rotation a = [[cos a, 0, - sin a], [0, 1, 0], [sin a, 0, cos a]]"

definition unit_direction :: "real \<Rightarrow> real \<Rightarrow> real list" where
  "unit_direction theta phi = [sin theta * cos phi, sin theta * sin phi, cos theta]"

definition pole_axis :: "real list" where
  "pole_axis = [0, 0, 1]"

definition identity3 :: "real list list" where
  "identity3 = [[1, 0, 0], [0, 1, 0], [0, 0, 1]]"

definition apply_matrix :: "real list list \<Rightarrow> real list \<Rightarrow> real list" where
  "apply_matrix A x = map (\<lambda>row. sum_list (map2 (*) row x)) A"

definition det3 :: "real list list \<Rightarrow> real" where
  "det3 A =
     A ! 0 ! 0 * (A ! 1 ! 1 * A ! 2 ! 2 - A ! 1 ! 2 * A ! 2 ! 1)
     - A ! 0 ! 1 * (A ! 1 ! 0 * A ! 2 ! 2 - A ! 1 ! 2 * A ! 2 ! 0)
     + A ! 0 ! 2 * (A ! 1 ! 0 * A ! 2 ! 1 - A ! 1 ! 1 * A ! 2 ! 0)"

section \<open>Properties of \<^verbatim>\<open>do_vectors_intersect\<close>\<close>

lemma cramer_solves:
  fixes px py dpx dpy qx qy dqx dqy :: real
  assumes "cross_product dpx dpy dqx dqy \<noteq> 0"
  defines "t \<equiv> cross_product (qx - px) (qy - py) dqx dqy / cross_product dpx dpy dqx dqy"
      and "u \<equiv> cross_product (qx - px) (qy - py) dpx dpy / cross_product dpx dpy dqx dqy"
  shows "px + t * dpx = qx + u * dqx" and "py + t * dpy = qy + u * dqy"
proof -
  let ?D = "cross_product dpx dpy dqx dqy"
  have tD: "t * ?D = cross_product (qx - px) (qy - py) dqx dqy"
    and uD: "u * ?D = cross_product (qx - px) (qy - py) dpx dpy"
    using assms(1) by (simp_all add: t_def u_def)
  have "(px + t * dpx - (qx + u * dqx)) * ?D = (t * ?D) * dpx - (u * ?D) * dqx - (qx - px) * ?D"
    by (simp add: algebra_simps)
  also have "\<dots> = 0"
    unfolding tD uD by (simp add: cross_product_def algebra_simps)
  finally show "px + t * dpx = qx + u * dqx"
    using assms(1) by simp
  have "(py + t * dpy - (qy + u * dqy)) * ?D = (t * ?D) * dpy - (u * ?D) * dqy - (qy - py) * ?D"
    by (simp add: algebra_simps)
  also have "\<dots> = 0"
    unfolding tD uD by (simp add: cross_product_def algebra_simps)
  finally show "py + t * dpy = qy + u * dqy"
    using assms(1) by simp
qed

text \<open>
  C3. \<^verbatim>\<open>do_vectors_intersect\<close> answers \<open>(True, t, u)\<close> exactly when the 2D cross
  product of \<open>dp\<close> and \<open>dq\<close> has magnitude at least the tolerance \<open>1 / 100000\<close> and
  the Cramer's-rule solutions \<open>t = cross (q - p) dq / cross dp dq\<close> and
  \<open>u = cross (q - p) dp / cross dp dq\<close> both lie strictly between 0 and 1. When it
  does, \<open>p + t * dp = q + u * dq\<close> in both coordinates, and neither \<open>t\<close> nor \<open>u\<close>
  is 0 or 1. (Exact real arithmetic.)
\<close>

theorem do_vectors_intersect_true_iff:
  fixes px py dpx dpy qx qy dqx dqy t u :: real
  shows
    "(do_vectors_intersect px py dpx dpy qx qy dqx dqy = (True, t, u) \<longleftrightarrow>
        1 / 100000 \<le> \<bar>cross_product dpx dpy dqx dqy\<bar> \<and>
        t = cross_product (qx - px) (qy - py) dqx dqy / cross_product dpx dpy dqx dqy \<and>
        u = cross_product (qx - px) (qy - py) dpx dpy / cross_product dpx dpy dqx dqy \<and>
        0 < t \<and> t < 1 \<and> 0 < u \<and> u < 1) \<and>
     (do_vectors_intersect px py dpx dpy qx qy dqx dqy = (True, t, u) \<longrightarrow>
        px + t * dpx = qx + u * dqx \<and> py + t * dpy = qy + u * dqy \<and>
        t \<noteq> 0 \<and> t \<noteq> 1 \<and> u \<noteq> 0 \<and> u \<noteq> 1)"
proof -
  let ?D = "cross_product dpx dpy dqx dqy"
  let ?r = "do_vectors_intersect px py dpx dpy qx qy dqx dqy"
  have iff: "?r = (True, t, u) \<longleftrightarrow>
        1 / 100000 \<le> \<bar>?D\<bar> \<and>
        t = cross_product (qx - px) (qy - py) dqx dqy / ?D \<and>
        u = cross_product (qx - px) (qy - py) dpx dpy / ?D \<and>
        0 < t \<and> t < 1 \<and> 0 < u \<and> u < 1"
    unfolding do_vectors_intersect_def Let_def by (auto simp: not_less)
  have sol: "px + t * dpx = qx + u * dqx \<and> py + t * dpy = qy + u * dqy \<and>
        t \<noteq> 0 \<and> t \<noteq> 1 \<and> u \<noteq> 0 \<and> u \<noteq> 1" if r: "?r = (True, t, u)"
  proof -
    from r iff have D: "1 / 100000 \<le> \<bar>?D\<bar>"
      and t: "t = cross_product (qx - px) (qy - py) dqx dqy / ?D"
      and u: "u = cross_product (qx - px) (qy - py) dpx dpy / ?D"
      and rng: "0 < t" "t < 1" "0 < u" "u < 1"
      by blast+
    from D have D0: "?D \<noteq> 0" by auto
    have "px + t * dpx = qx + u * dqx" and "py + t * dpy = qy + u * dqy"
      unfolding t u
      by (rule cramer_solves [OF D0])+
    with rng show ?thesis by simp
  qed
  from iff sol show ?thesis by blast
qed

text \<open>
  An instance of C3: the segment from \<open>(0, 0)\<close> along \<open>(2, 2)\<close> and the segment from
  \<open>(0, 2)\<close> along \<open>(2, - 2)\<close> cross at the midpoint of both.
\<close>

theorem do_vectors_intersect_true_iff_witness:
  "do_vectors_intersect 0 0 2 2 0 2 2 (- 2) = (True, 1 / 2, 1 / 2) \<and>
   (0::real) + 1 / 2 * 2 = 0 + 1 / 2 * 2 \<and> (0::real) + 1 / 2 * 2 = 2 + 1 / 2 * (- 2)"
proof -
  have r: "do_vectors_intersect 0 0 2 2 0 2 2 (- 2) = (True, 1 / 2, 1 / 2)"
    by (simp add: do_vectors_intersect_def cross_product_def Let_def)
  from do_vectors_intersect_true_iff [of 0 0 2 2 0 2 2 "- 2" "1 / 2" "1 / 2"] r
  show ?thesis by simp
qed

text \<open>
  C4 as stated fails: for parallel displacements the function reports no intersection
  with the parameters \<open>(0, 0)\<close>, not \<open>(- 1, - 1)\<close>.
\<close>

theorem near_parallel_sentinel_counterexample:
  "\<not> fst (do_vectors_intersect 0 0 1 0 0 1 1 0) \<and>
   do_vectors_intersect 0 0 1 0 0 1 1 0 \<noteq> (False, - 1, - 1)"
  by (simp add: do_vectors_intersect_def cross_product_def)

text \<open>
  C4, amended. Whenever \<^verbatim>\<open>do_vectors_intersect\<close> reports no intersection, the flag is
  false and the two parameters are \<open>(0, 0)\<close> in the near-parallel case (magnitude of
  the cross product of \<open>dp\<close> and \<open>dq\<close> below the tolerance) and \<open>(- 1, - 1)\<close> in every
  other case.
\<close>

theorem no_intersection_result:
  fixes px py dpx dpy qx qy dqx dqy :: real
  assumes "\<not> fst (do_vectors_intersect px py dpx dpy qx qy dqx dqy)"
  shows "do_vectors_intersect px py dpx dpy qx qy dqx dqy =
           (if \<bar>cross_product dpx dpy dqx dqy\<bar> < 1 / 100000 then (False, 0, 0)
            else (False, - 1, - 1))"
  using assms unfolding do_vectors_intersect_def Let_def
  by (simp split: if_splits)

theorem no_intersection_result_witness:
  "\<not> fst (do_vectors_intersect 0 0 1 0 5 5 0 1) \<and>
   do_vectors_intersect 0 0 1 0 5 5 0 1 = (False, - 1, - 1) \<and>
   \<not> \<bar>cross_product 1 0 0 1\<bar> < 1 / 100000"
proof -
  have h: "\<not> fst (do_vectors_intersect 0 0 1 0 5 5 0 1)"
    by (simp add: do_vectors_intersect_def cross_product_def)
  from no_intersection_result [OF h] h show ?thesis
    by (simp add: cross_product_def)
qed

section \<open>Properties of \<^verbatim>\<open>find_crossings\<close>\<close>

text \<open>Facts used to evaluate the planar distance on concrete points.\<close>

lemma sqrt_less_pos: "0 < y \<Longrightarrow> sqrt x < y \<longleftrightarrow> x < y\<^sup>2"
  by (metis real_sqrt_less_iff real_sqrt_abs abs_of_pos)

lemma sqrt_9: "sqrt 9 = 3"
  by (rule real_sqrt_unique) simp_all

lemma sqrt_25: "sqrt 25 = 5"
  by (rule real_sqrt_unique) simp_all

lemmas find_crossings_eval =
  find_crossings_def find_crossings_loop.simps find_crossings_step_def
  do_vectors_intersect_def cross_product_def sign_def row_add_def Let_def

text \<open>
  The two records built for one crossing (lines 121 to 124 and 126 to 129) do mirror
  each other, and their last two fields are in \<open>{- 1, 0, 1}\<close>: \<open>sign\<close> has no other
  values.
\<close>

lemma sign_values: "sign a \<in> {- 1, 0, 1}"
  by (simp add: sign_def)

lemma sign_product_values: "sign a * sign b \<in> {- 1, 0, 1}"
  by (simp add: sign_def)

text \<open>
  C1 fails on the code. The query segment from \<open>(0, 0, 1)\<close> to \<open>(4, 3, 1)\<close>, segment 2
  of its strand, crosses the comparison segment from \<open>(0, 3, 0)\<close> to \<open>(4, 0, 0)\<close> at the
  midpoint of both. The two mirrored records are \<open>(5/2, 1/2, 1, - 1)\<close> and
  \<open>(1/2, 5/2, - 1, - 1)\<close>, and both are added into row 0 of the buffer: the output
  holds their sum \<open>(3, 3, 0, - 2)\<close> and neither record.
\<close>

theorem find_crossings_sums_mirrored_records:
  "do_vectors_intersect 0 0 4 3 0 3 4 (- 3) = (True, 1 / 2, 1 / 2) \<and>
   find_crossings (0, 0, 1) (4, 3, 0) [(0, 3, 0), (4, 0, 0)] [5] 2 0 5 3 =
     Inr [(3, 3, 0, - 2), (0, 0, 0, 0)] \<and>
   (5 / 2, 1 / 2, 1, - 1) \<notin> set [(3, 3, 0, - 2), (0, 0, 0, 0) :: crossing] \<and>
   (1 / 2, 5 / 2, - 1, - 1) \<notin> set [(3, 3, 0, - 2), (0, 0, 0, 0) :: crossing]"
proof -
  have "do_vectors_intersect 0 0 4 3 0 3 4 (- 3) = (True, 1 / 2, 1 / 2)"
    by (simp add: do_vectors_intersect_def cross_product_def Let_def)
  moreover
  have "find_crossings (0, 0, 1) (4, 3, 0) [(0, 3, 0), (4, 0, 0)] [5] 2 0 5 3 =
          Inr [(3, 3, 0, - 2), (0, 0, 0, 0)]"
    by (simp add: find_crossings_eval sqrt_less_pos)
  ultimately show ?thesis by simp
qed

text \<open>
  C5 fails on the code, by the same summation. What claim C5 asks of a row is
  \<open>crossing_fields_in_range\<close>. The query segment from \<open>(- 4, 0, 1)\<close> to \<open>(4, 0, 1)\<close>
  crosses the comparison segment from \<open>(0, - 3, 0)\<close> to \<open>(0, 3, 0)\<close>, and the row
  returned for the crossing has the direction field 2.
\<close>

theorem find_crossings_direction_out_of_range:
  "find_crossings (- 4, 0, 1) (8, 0, 0) [(0, - 3, 0), (0, 3, 0)] [6] 0 0 8 3 =
     Inr [(1, 1, 0, 2), (0, 0, 0, 0)] \<and>
   \<not> crossing_fields_in_range (1, 1, 0, 2)"
proof -
  have "find_crossings (- 4, 0, 1) (8, 0, 0) [(0, - 3, 0), (0, 3, 0)] [6] 0 0 8 3 =
          Inr [(1, 1, 0, 2), (0, 0, 0, 0)]"
    by (simp add: find_crossings_eval sqrt_less_pos)
  then show ?thesis
    by (simp add: crossing_fields_in_range_def)
qed

text \<open>
  C10 fails on the code. With two comparison points and the one segment length between
  them, the accumulation loop of the default jump mode reads \<^verbatim>\<open>segment_lengths[1]\<close>:
  its test is \<open>i < len(points)\<close>, and the array has \<open>len(points) - 1\<close> entries.
\<close>

theorem accumulation_reads_past_segment_lengths:
  "length [1 :: real] = length [(3, 0, 0), (4, 0, 0 :: real)] - 1 \<and>
   accumulate_jumps (3 - 1) 2 [1] 0 0 0 = Inl IndexError \<and>
   find_crossings (0, 0, 0) (0, 1, 0) [(3, 0, 0), (4, 0, 0)] [1] 0 0 1 1 = Inl IndexError"
proof -
  have acc: "accumulate_jumps (3 - 1) 2 [1] 0 0 0 = Inl IndexError"
    by (simp add: accumulate_jumps.simps)
  have "find_crossings (0, 0, 0) (0, 1, 0) [(3, 0, 0), (4, 0, 0)] [1] 0 0 1 1 = Inl IndexError"
    by (simp add: find_crossings_eval sqrt_9 accumulate_jumps.simps)
  with acc show ?thesis by simp
qed

text \<open>
  C9 as stated fails. With \<open>max_segment_length = 1\<close> and the comparison points
  \<open>(3, 0, 0)\<close>, \<open>(4, 0, 0)\<close>, \<open>(5, 0, 0)\<close>, \<open>(6, 0, 0)\<close>, the first pass jumps from index 0 to
  index 2. There the distance is 5, at least twice the maximum, and the claimed advance
  is \<open>max 1 (5 - 1) = 4\<close>; but \<^verbatim>\<open>already_jumped\<close> is set, so the pass tests the segment
  and advances by one. And with \<open>max_segment_length = 0\<close> the division fails.
\<close>

theorem jump_after_jump_counterexample:
  "find_crossings_step (0, 0, 0) (0, 1, 0) [(3, 0, 0), (4, 0, 0), (5, 0, 0), (6, 0, 0)]
       [1, 1, 1] 0 0 1 2
       \<lparr>idx = 0, already_jumped = False, crossings = replicate 4 (0, 0, 0, 0)\<rparr> =
     Inr \<lparr>idx = 2, already_jumped = True, crossings = replicate 4 (0, 0, 0, 0)\<rparr> \<and>
   2 * real_of_int 1 \<le>
     planar_distance (0, 0, 0) ([(3, 0, 0), (4, 0, 0), (5, 0, 0), (6, 0, 0)] ! 2) \<and>
   max 1 (\<lfloor>planar_distance (0, 0, 0) ([(3, 0, 0), (4, 0, 0), (5, 0, 0), (6, 0, 0)] ! 2)
            / real_of_int 1\<rfloor> - 1) = 4 \<and>
   find_crossings_step (0, 0, 0) (0, 1, 0) [(3, 0, 0), (4, 0, 0), (5, 0, 0), (6, 0, 0)]
       [1, 1, 1] 0 0 1 2
       \<lparr>idx = 2, already_jumped = True, crossings = replicate 4 (0, 0, 0, 0)\<rparr> =
     Inr \<lparr>idx = 3, already_jumped = False, crossings = replicate 4 (0, 0, 0, 0)\<rparr> \<and>
   find_crossings_step (0, 0, 0) (0, 1, 0) [(3, 0, 0), (4, 0, 0), (5, 0, 0), (6, 0, 0)]
       [1, 1, 1] 0 0 0 2
       \<lparr>idx = 0, already_jumped = False, crossings = replicate 4 (0, 0, 0, 0)\<rparr> =
     Inl ZeroDivisionError"
  by (simp add: find_crossings_step_def planar_distance_def do_vectors_intersect_def
      cross_product_def Let_def sqrt_9 sqrt_25)

text \<open>
  C9, amended. In jump mode 2 with a non-zero \<open>max_segment_length\<close>, when the planar
  distance from the query point to the current comparison point is at least twice
  \<open>max_segment_length\<close>: if the previous pass did not jump (\<^verbatim>\<open>already_jumped\<close> is clear),
  the pass advances the comparison index by exactly
  \<open>max 1 (\<lfloor>distance / max_segment_length\<rfloor> - 1)\<close> points, sets \<^verbatim>\<open>already_jumped\<close> and leaves
  the buffer as it is; on the pass right after a jump (\<^verbatim>\<open>already_jumped\<close> is set) it
  tests the current segment instead and advances by one point.
\<close>

theorem max_step_jump_advance:
  assumes "jump_mode = 2"
    and "max_segment_length \<noteq> 0"
    and "idx s + 1 < length points"
    and "2 * real_of_int max_segment_length \<le> planar_distance v (points ! idx s)"
  shows
    "(\<not> already_jumped s \<longrightarrow>
        find_crossings_step v dv points segment_lengths current_index comparison_index
            max_segment_length jump_mode s =
          Inr \<lparr>idx = idx s +
                  nat (max 1 (\<lfloor>planar_distance v (points ! idx s)
                                 / real_of_int max_segment_length\<rfloor> - 1)),
                already_jumped = True, crossings = crossings s\<rparr>) \<and>
     (already_jumped s \<longrightarrow>
        (\<exists>buffer.
           find_crossings_step v dv points segment_lengths current_index comparison_index
               max_segment_length jump_mode s =
             Inr \<lparr>idx = idx s + 1, already_jumped = False, crossings = buffer\<rparr>))"
proof -
  obtain vx vy vz where v: "v = (vx, vy, vz)"
    by (metis prod_cases3)
  obtain dvx dvy dvz where dv: "dv = (dvx, dvy, dvz)"
    by (metis prod_cases3)
  obtain p0 p1 p2 where p: "points ! idx s = (p0, p1, p2)"
    by (metis prod_cases3)
  obtain n0 n1 n2 where n: "points ! (idx s + 1) = (n0, n1, n2)"
    by (metis prod_cases3)
  let ?d = "sqrt ((vx - p0)\<^sup>2 + (vy - p1)\<^sup>2)"
  have d: "planar_distance v (points ! idx s) = ?d"
    by (simp add: planar_distance_def v p)
  from assms(4) have far: "\<not> ?d < 2 * real_of_int max_segment_length"
    by (simp add: d)
  have jump: "find_crossings_step v dv points segment_lengths current_index comparison_index
            max_segment_length jump_mode s =
          Inr \<lparr>idx = idx s + nat (max 1 (\<lfloor>?d / real_of_int max_segment_length\<rfloor> - 1)),
                already_jumped = True, crossings = crossings s\<rparr>"
    if "\<not> already_jumped s"
    using that assms(1-3) far
    by (simp add: find_crossings_step_def v dv p Let_def max_def)
  have test: "\<exists>buffer.
           find_crossings_step v dv points segment_lengths current_index comparison_index
               max_segment_length jump_mode s =
             Inr \<lparr>idx = idx s + 1, already_jumped = False, crossings = buffer\<rparr>"
    if "already_jumped s"
    using that assms(3)
    by (simp add: find_crossings_step_def v dv p n Let_def split: prod.splits)
  from jump test show ?thesis
    by (simp add: d)
qed

theorem max_step_jump_advance_witness:
  "find_crossings_step (0, 0, 0) (0, 1, 0) [(3, 0, 0), (4, 0, 0), (5, 0, 0), (6, 0, 0)]
       [1, 1, 1] 0 0 1 2
       \<lparr>idx = 0, already_jumped = False, crossings = replicate 4 (0, 0, 0, 0)\<rparr> =
     Inr \<lparr>idx = 0 + nat (max 1 (\<lfloor>3 / real_of_int 1\<rfloor> - 1)), already_jumped = True,
          crossings = replicate 4 (0, 0, 0, 0)\<rparr> \<and>
   (\<exists>buffer.
      find_crossings_step (0, 0, 0) (0, 1, 0) [(3, 0, 0), (4, 0, 0), (5, 0, 0), (6, 0, 0)]
          [1, 1, 1] 0 0 1 2
          \<lparr>idx = 2, already_jumped = True, crossings = replicate 4 (0, 0, 0, 0)\<rparr> =
        Inr \<lparr>idx = 3, already_jumped = False, crossings = buffer\<rparr>)"
proof -
  let ?points = "[(3, 0, 0), (4, 0, 0), (5, 0, 0), (6, 0, 0)] :: point list"
  let ?s0 = "\<lparr>idx = 0, already_jumped = False, crossings = replicate 4 (0, 0, 0, 0)\<rparr>"
  let ?s2 = "\<lparr>idx = 2, already_jumped = True, crossings = replicate 4 (0, 0, 0, 0)\<rparr>"
  have d0: "planar_distance (0, 0, 0) (3, 0, 0) = 3"
    by (simp add: planar_distance_def sqrt_9)
  have d2: "planar_distance (0, 0, 0) (5, 0, 0) = 5"
    by (simp add: planar_distance_def sqrt_25)
  have first: "\<not> already_jumped ?s0 \<longrightarrow>
      find_crossings_step (0, 0, 0) (0, 1, 0) ?points [1, 1, 1] 0 0 1 2 ?s0 =
        Inr \<lparr>idx = idx ?s0 + nat (max 1 (\<lfloor>planar_distance (0, 0, 0) (?points ! idx ?s0)
                                            / real_of_int 1\<rfloor> - 1)),
              already_jumped = True, crossings = crossings ?s0\<rparr>"
    using max_step_jump_advance [of 2 1 ?s0 ?points "(0, 0, 0)" "(0, 1, 0)" "[1, 1, 1]" 0 0]
    by (simp add: d0)
  have second: "already_jumped ?s2 \<longrightarrow>
      (\<exists>buffer. find_crossings_step (0, 0, 0) (0, 1, 0) ?points [1, 1, 1] 0 0 1 2 ?s2 =
        Inr \<lparr>idx = idx ?s2 + 1, already_jumped = False, crossings = buffer\<rparr>)"
    using max_step_jump_advance [of 2 1 ?s2 ?points "(0, 0, 0)" "(0, 1, 0)" "[1, 1, 1]" 0 0]
    by (simp add: d2)
  from first second show ?thesis
    by (simp add: d0)
qed

section \<open>Properties of \<^verbatim>\<open>raw_cross_loop\<close>\<close>

lemma upt_small: "[0..<2] = [0, 1]" "[0..<3] = [0, 1, 2]" "[1..<2] = [1]" "[2..<2] = []"
  by (simp_all add: upt_rec)

text \<open>
  C2 fails on the code. Two lines, the first with the query segments 0 and 1, the second
  a single segment that crosses query segment 0 and not query segment 1; cumulative
  offsets 0 and 3. The function returns the two arrays of the last call alone (one row
  each, without the crossing); the concatenation over both query segments has two rows
  each and holds the crossing of query segment 0 in \<open>(1, 4, 0, 2)\<close>.
\<close>

theorem raw_cross_loop_keeps_last_segment_only:
  "raw_cross_loop [[(- 4, 0, 1), (4, 0, 1), (12, 0, 1)], [(0, - 3, 0), (0, 3, 0)]]
       [[8, 8], [6]] 8 3 [0, 3] 0 =
     Inr ([(0, 3, 0, 0)], [(3, 0, 0, 0)]) \<and>
   concatenated_crossings [[(- 4, 0, 1), (4, 0, 1), (12, 0, 1)], [(0, - 3, 0), (0, 3, 0)]]
       [[8, 8], [6]] 8 3 [0, 3] 0 =
     Inr ([(1, 4, 0, 2), (0, 3, 0, 0)], [(3, 0, 0, 0), (3, 0, 0, 0)])"
proof -
  have seg0: "find_crossings (- 4, 0, 1) (8, 0, 0) [(0, - 3, 0), (0, 3, 0)] [6] 0 0 8 3 =
      Inr [(1, 1, 0, 2), (0, 0, 0, 0)]"
    by (simp add: find_crossings_eval sqrt_less_pos)
  have seg1: "find_crossings (4, 0, 1) (8, 0, 0) [(0, - 3, 0), (0, 3, 0)] [6] 1 0 8 3 =
      Inr [(0, 0, 0, 0), (0, 0, 0, 0)]"
    by (simp add: find_crossings_eval sqrt_less_pos)
  have "raw_cross_loop [[(- 4, 0, 1), (4, 0, 1), (12, 0, 1)], [(0, - 3, 0), (0, 3, 0)]]
       [[8, 8], [6]] 8 3 [0, 3] 0 = Inr ([(0, 3, 0, 0)], [(3, 0, 0, 0)])"
    by (simp add: raw_cross_loop_def raw_cross_pair_def line_pairs_def first_line_range_def
        segment_crossings_def list_get_def offset_positions_def upt_small seg0 seg1)
  moreover
  have "concatenated_crossings [[(- 4, 0, 1), (4, 0, 1), (12, 0, 1)], [(0, - 3, 0), (0, 3, 0)]]
       [[8, 8], [6]] 8 3 [0, 3] 0 =
     Inr ([(1, 4, 0, 2), (0, 3, 0, 0)], [(3, 0, 0, 0), (3, 0, 0, 0)])"
    by (simp add: concatenated_crossings_def line_pairs_def first_line_range_def
        segment_crossings_def list_get_def offset_positions_def upt_small seg0 seg1)
  ultimately show ?thesis by simp
qed

section \<open>Properties of \<^verbatim>\<open>rotate_to_top\<close>\<close>

lemma rotate_to_top_entries:
  "rotate_to_top theta phi =
     [[cos theta * cos phi, cos theta * sin phi, - sin theta],
      [- sin phi, cos phi, 0],
      [sin theta * cos phi, sin theta * sin phi, cos theta]]"
  by (simp add: rotate_to_top_def dot_def Let_def)

lemma rotate_to_top_rows_orthonormal:
  "dot (rotate_to_top theta phi) (transpose (rotate_to_top theta phi)) = identity3"
  unfolding rotate_to_top_entries
  apply (simp add: dot_def identity3_def)
  apply (intro conjI)
  using sin_cos_squared_add [of theta] sin_cos_squared_add [of phi]
      apply algebra+
  done

lemma rotate_to_top_columns_orthonormal:
  "dot (transpose (rotate_to_top theta phi)) (rotate_to_top theta phi) = identity3"
  unfolding rotate_to_top_entries
  apply (simp add: dot_def identity3_def)
  apply (intro conjI)
  using sin_cos_squared_add [of theta] sin_cos_squared_add [of phi]
      apply algebra+
  done

lemma rotate_to_top_det: "det3 (rotate_to_top theta phi) = 1"
  unfolding rotate_to_top_entries
  apply (simp add: det3_def)
  using sin_cos_squared_add [of theta] sin_cos_squared_add [of phi]
  apply algebra
  done

lemma rotate_to_top_pole:
  "apply_matrix (rotate_to_top theta phi) (unit_direction theta phi) = pole_axis"
  unfolding rotate_to_top_entries
  apply (simp add: apply_matrix_def unit_direction_def pole_axis_def)
  apply (intro conjI)
  using sin_cos_squared_add [of theta] sin_cos_squared_add [of phi]
   apply algebra+
  done

text \<open>
  C7. For all real \<open>\<theta>\<close> and \<open>\<phi>\<close>, \<^verbatim>\<open>rotate_to_top\<close> returns a matrix of three rows of
  three entries that is the product of the polar rotation by \<open>\<theta>\<close> with the azimuthal
  rotation by \<open>- \<phi>\<close> on its right; the matrix is orthonormal (its product with its
  transpose is the identity, on either side), its determinant is 1, and it maps the unit
  direction of \<open>(\<theta>, \<phi>)\<close> onto the pole axis. (Exact real arithmetic.)
\<close>

theorem rotate_to_top_is_rotation:
  "rotate_to_top theta phi = dot (polar_rotation theta) (azimuthal_rotation (- phi)) \<and>
   map length (rotate_to_top theta phi) = [3, 3, 3] \<and>
   dot (rotate_to_top theta phi) (transpose (rotate_to_top theta phi)) = identity3 \<and>
   dot (transpose (rotate_to_top theta phi)) (rotate_to_top theta phi) = identity3 \<and>
   det3 (rotate_to_top theta phi) = 1 \<and>
   apply_matrix (rotate_to_top theta phi) (unit_direction theta phi) = pole_axis"
proof -
  have "rotate_to_top theta phi = dot (polar_rotation theta) (azimuthal_rotation (- phi))"
    by (simp add: rotate_to_top_def polar_rotation_def azimuthal_rotation_def Let_def)
  moreover have "map length (rotate_to_top theta phi) = [3, 3, 3]"
    by (simp add: rotate_to_top_entries)
  ultimately show ?thesis
    using rotate_to_top_rows_orthonormal [of theta phi]
      rotate_to_top_columns_orthonormal [of theta phi]
      rotate_to_top_det [of theta phi] rotate_to_top_pole [of theta phi]
    by blast
qed

section \<open>Properties of \<^verbatim>\<open>get_rotation_angles\<close>\<close>

lemma float_mod_range:
  assumes "0 < m"
  shows "0 \<le> float_mod x m" and "float_mod x m < m"
proof -
  let ?q = "real_of_int \<lfloor>x / m\<rfloor>"
  have "?q \<le> x / m"
    by (rule of_int_floor_le)
  then have "?q * m \<le> x"
    using assms by (simp only: pos_le_divide_eq)
  then show "0 \<le> float_mod x m"
    by (simp add: float_mod_def mult.commute)
  have "x / m < ?q + 1"
    by linarith
  then have "x < (?q + 1) * m"
    using assms by (simp only: pos_divide_less_eq)
  then show "float_mod x m < m"
    by (simp add: float_mod_def algebra_simps)
qed

lemma height_bounds:
  fixes k number :: int
  assumes "2 \<le> k" and "k \<le> number"
  defines "h \<equiv> - 1 + (2 * real_of_int (k - 1)) / real_of_int (number - 1)"
  shows "- 1 < h" and "h \<le> 1" and "k < number \<Longrightarrow> h < 1"
proof -
  from assms(1,2) have pos: "0 < real_of_int (number - 1)" and kpos: "0 < real_of_int (k - 1)"
    by simp_all
  from pos kpos show "- 1 < h"
    by (simp add: h_def)
  from assms(2) have "real_of_int (k - 1) \<le> real_of_int (number - 1)"
    by simp
  with pos show "h \<le> 1"
    by (simp add: h_def pos_divide_le_eq)
  assume "k < number"
  then have "real_of_int (k - 1) < real_of_int (number - 1)"
    by simp
  with pos show "h < 1"
    by (simp add: h_def pos_divide_less_eq)
qed

lemma spiral_step_length: "length (spiral_step number k angles) = length angles"
  by (simp add: spiral_step_def Let_def)

lemma spiral_step_other:
  "j \<noteq> nat (k - 1) \<Longrightarrow> spiral_step number k angles ! j = angles ! j"
  by (simp add: spiral_step_def Let_def)

lemma spiral_step_latitude:
  assumes "2 \<le> k" and "k \<le> number" and "nat (k - 1) < length angles"
  shows "0 \<le> fst (spiral_step number k angles ! nat (k - 1))"
    and "fst (spiral_step number k angles ! nat (k - 1)) \<le> pi"
  using height_bounds(1,2) [OF assms(1,2)] assms(3)
  by (simp_all add: spiral_step_def Let_def arccos_lbound arccos_ubound)

lemma spiral_step_valid:
  assumes "2 \<le> k" and "k < number" and "nat (k - 1) < length angles"
    and "valid_direction (angles ! nat (k - 2))"
  shows "valid_direction (spiral_step number k angles ! nat (k - 1))"
proof -
  let ?h = "- 1 + (2 * real_of_int (k - 1)) / real_of_int (number - 1)"
  from assms(1,2) have le: "k \<le> number" by simp
  from height_bounds [OF assms(1) le] assms(2) have h: "- 1 < ?h" "?h < 1"
    by simp_all
  then have "\<bar>?h\<bar> < 1" by simp
  then have "?h\<^sup>2 < 1"
    by (simp add: abs_square_less_1)
  then have nz: "sqrt (1 - ?h\<^sup>2) \<noteq> 0"
    by simp
  from assms(4) obtain lat lon where prev: "angles ! nat (k - 2) = (lat, Some lon)"
    by (auto simp: valid_direction_def split: prod.splits option.splits)
  have twopi: "0 < 2 * pi" by simp
  from h have "0 \<le> arccos ?h" "arccos ?h \<le> pi"
    by (simp_all add: arccos_lbound arccos_ubound)
  with assms(3) nz prev float_mod_range [OF twopi] show ?thesis
    by (simp add: spiral_step_def Let_def valid_direction_def)
qed

lemma fold_spiral_valid:
  assumes "1 \<le> m" and "m < number" and "length angles = nat number"
    and "valid_direction (angles ! 0)"
  shows "length (fold (spiral_step number) [2 .. m] angles) = nat number \<and>
         (\<forall>j < nat m. valid_direction (fold (spiral_step number) [2 .. m] angles ! j))"
  using assms(1,2)
proof (induction m rule: int_ge_induct)
  case base
  from assms(3,4) show ?case by simp
next
  case (step m)
  let ?r = "fold (spiral_step number) [2 .. m] angles"
  from step have IH: "length ?r = nat number" "\<forall>j < nat m. valid_direction (?r ! j)"
    by simp_all
  from step.hyps have up: "[2 .. m + 1] = [2 .. m] @ [m + 1]"
    by (simp add: upto_rec2)
  have res: "fold (spiral_step number) [2 .. m + 1] angles = spiral_step number (m + 1) ?r"
    by (simp add: up)
  have len: "length (spiral_step number (m + 1) ?r) = nat number"
    by (simp add: spiral_step_length IH(1))
  have "valid_direction (spiral_step number (m + 1) ?r ! j)" if j: "j < nat (m + 1)" for j
  proof (cases "j = nat m")
    case True
    from step.hyps have "nat (m + 1 - 2) < nat m" by simp
    with IH(2) have "valid_direction (?r ! nat (m + 1 - 2))" by blast
    moreover from step.hyps step.prems IH(1) have "nat (m + 1 - 1) < length ?r" by simp
    moreover from step.hyps have "2 \<le> m + 1" by simp
    ultimately have "valid_direction (spiral_step number (m + 1) ?r ! nat (m + 1 - 1))"
      using step.prems by (intro spiral_step_valid)
    with True show ?thesis by simp
  next
    case False
    with j step.hyps have "j < nat m" by simp
    with IH(2) have "valid_direction (?r ! j)" by blast
    moreover from False have "j \<noteq> nat (m + 1 - 1)" by simp
    ultimately show ?thesis
      by (simp add: spiral_step_other)
  qed
  with len show ?case
    unfolding res by blast
qed


text \<open>
  C6. For every count of at least 2, \<^verbatim>\<open>get_rotation_angles\<close> returns, without an error,
  exactly \<open>count\<close> pairs, every one with a latitude in \<open>[0, \<pi>]\<close> and a finite longitude
  in \<open>[0, 2\<pi>)\<close>. The result is a function of \<open>count\<close> alone: the source reads no
  random state and no other input, so two calls with the same count return the same
  list. (Exact real arithmetic; the non-finite longitude computed at \<open>k = count\<close> is
  overwritten by the final assignment.)
\<close>

theorem get_rotation_angles_valid:
  assumes "2 \<le> count"
  shows "\<exists>angles. get_rotation_angles count = Inr angles \<and>
           int (length angles) = count \<and>
           list_all valid_direction angles"
proof -
  let ?n = "nat count"
  let ?a0 = "(replicate ?n (0, Some 0)) [0 := (pi, Some 0)]"
  let ?r1 = "fold (spiral_step count) [2 .. count - 1] ?a0"
  let ?r2 = "spiral_step count count ?r1"
  let ?final = "nat (count - 1)"
  let ?out = "?r2 [?final := (fst (?r2 ! ?final), Some 0)]"
  from assms have up: "[2 .. count] = [2 .. count - 1] @ [count]"
    by (simp add: upto_rec2)
  from assms have a0: "length ?a0 = ?n" "valid_direction (?a0 ! 0)"
    by (simp_all add: valid_direction_def)
  from assms have "1 \<le> count - 1" "count - 1 < count"
    by simp_all
  from fold_spiral_valid [OF this a0]
  have r1: "length ?r1 = ?n" "\<forall>j < nat (count - 1). valid_direction (?r1 ! j)"
    by simp_all
  have r2: "length ?r2 = ?n"
    by (simp add: spiral_step_length r1(1))
  from assms have final: "?n - Suc 0 = ?final" "?final < ?n"
    by simp_all
  have eq: "get_rotation_angles count = Inr ?out"
    using assms by (simp add: get_rotation_angles_def Let_def up r2 final(1))
  have "valid_direction (?out ! j)" if j: "j < ?n" for j
  proof (cases "j = ?final")
    case True
    from final(2) r1(1) have "?final < length ?r1"
      by simp
    from spiral_step_latitude [OF assms order_refl this]
    have "0 \<le> fst (?r2 ! ?final)" "fst (?r2 ! ?final) \<le> pi" .
    with True final(2) r2 show ?thesis
      by (simp add: valid_direction_def)
  next
    case False
    with j have "j < ?final" by simp
    with r1(2) have "valid_direction (?r1 ! j)" by blast
    with False show ?thesis
      by (simp add: spiral_step_other)
  qed
  with r2 have "list_all valid_direction ?out"
    by (simp add: list_all_length)
  moreover from assms r2 have "int (length ?out) = count"
    by simp
  ultimately show ?thesis
    using eq by blast
qed

text \<open>An instance of C6: the two poles for \<open>count = 2\<close>.\<close>

theorem get_rotation_angles_valid_witness:
  "(2 :: int) \<le> 2 \<and> get_rotation_angles 2 = Inr [(pi, Some 0), (0, Some 0)] \<and>
   (\<exists>angles. get_rotation_angles 2 = Inr angles \<and> int (length angles) = 2 \<and>
      list_all valid_direction angles)"
proof -
  have "get_rotation_angles 2 = Inr [(pi, Some 0), (0, Some 0)]"
    by (simp add: get_rotation_angles_def spiral_step_def upto_rec1 numeral_2_eq_2)
  with get_rotation_angles_valid [of 2] show ?thesis
    by simp
qed

text \<open>
  C8 as stated fails: the call with \<open>count = 1\<close> is not rejected, it returns the single
  pair \<open>(\<pi>, 0)\<close>.
\<close>

theorem get_rotation_angles_one_counterexample:
  "get_rotation_angles 1 = Inr [(pi, Some 0)]"
  by (simp add: get_rotation_angles_def)

text \<open>
  C8, amended. \<^verbatim>\<open>get_rotation_angles\<close> does not check its argument. A count below 1
  fails before anything is returned: a negative count in the allocation of the array
  (\<open>ValueError\<close>), the count 0 in the first write to it (\<open>IndexError\<close>). The count 1 is
  accepted (see the counterexample).
\<close>

theorem get_rotation_angles_rejects_below_one:
  assumes "number < 1"
  shows "get_rotation_angles number =
           Inl (if number < 0 then ValueError else IndexError)"
proof (cases "number < 0")
  case True
  then show ?thesis
    by (simp add: get_rotation_angles_def)
next
  case False
  with assms have "number = 0" by simp
  then show ?thesis
    by (simp add: get_rotation_angles_def)
qed

theorem get_rotation_angles_rejects_below_one_witness:
  "(0 :: int) < 1 \<and> get_rotation_angles 0 = Inl IndexError \<and>
   (- 3 :: int) < 1 \<and> get_rotation_angles (- 3) = Inl ValueError"
  using get_rotation_angles_rejects_below_one [of 0]
    get_rotation_angles_rejects_below_one [of "- 3"]
  by simp

end
